theory Spec2Isabelle
  imports Main
begin

section \<open>The credential manager of libmachete (credentials.go)\<close>

text \<open>
  The manager sits between three collaborators that live in other files: the backing
  store (\<open>storage.Credentials\<close>), the codecs (\<open>*codec\<close> with its methods
  \<open>marshal\<close> and \<open>unmarshal\<close>, and the package variable \<open>DefaultContentType\<close>)
  and the credential shapes of the provisioners (\<open>api.Credential\<close>,
  \<open>api.CredentialBase\<close>). They are parameters of the model. The functions of
  credentials.go are translated one by one over them.
\<close>

subsection \<open>Data\<close>

text \<open>
  A Go \<open>error\<close> is used by this file only through \<open>err != nil\<close> and
  \<open>err.Error()\<close>, so an error is its message. \<open>[]byte\<close> is a list of
  characters (an Isabelle \<open>char\<close> is a byte).
\<close>

type_synonym error = string
type_synonym bytes = string

text \<open>\<open>storage.CredentialsID\<close> is a named string type; \<open>string(i)\<close> converts back.\<close>

datatype CredentialsID = CredentialsID (string_of: string)

text \<open>
  A \<open>*codec\<close> that is not nil: its two methods. \<open>unmarshal(data, cred)\<close>
  fills the shape \<open>cred\<close> in place and returns an error; the model returns the filled
  shape instead. A nil \<open>*codec\<close> is \<open>None\<close>.
\<close>

record 'c codec =
  unmarshal :: "bytes \<Rightarrow> 'c \<Rightarrow> error + 'c"
  marshal :: "'c \<Rightarrow> error + bytes"

text \<open>
  The collaborators. \<open>'s\<close> is the state of the backing store, \<open>'c\<close> the type of the
  credential shapes (everything that implements \<open>api.Credential\<close>, the base shape
  included). Reading the store (\<open>List\<close>, \<open>GetCredentials\<close>) returns a result and leaves
  the store as it is; \<open>Save\<close> and \<open>Delete\<close> return an error or nil together with the
  store they leave behind. \<open>GetCredentials(id, shape)\<close> fills \<open>shape\<close> in place; the
  model returns the filled shape.
\<close>

record ('s, 'c) collaborators =
  store_List :: "'s \<Rightarrow> error + CredentialsID list"
  store_Save :: "'s \<Rightarrow> CredentialsID \<Rightarrow> 'c \<Rightarrow> error option \<times> 's"
  store_GetCredentials :: "'s \<Rightarrow> CredentialsID \<Rightarrow> 'c \<Rightarrow> error + 'c"
  store_Delete :: "'s \<Rightarrow> CredentialsID \<Rightarrow> error option \<times> 's"
  ProvisionerName :: "'c \<Rightarrow> string"
  CredentialBase :: "'c"
  DefaultContentType :: "'c codec"

text \<open>
  What the functions of this file do to the outside, in the order they do it: the
  mutex, the registry map, the calls on the store and on the codec, and the draining of
  the input reader.
\<close>

datatype 'c event =
    LockAcquire
  | LockRelease
  | MapWrite string
  | MapRead string
  | StoreList
  | StoreSave CredentialsID 'c
  | StoreGet CredentialsID 'c
  | StoreDelete CredentialsID
  | ReadAllInput
  | CodecUnmarshal bytes 'c
  | CodecMarshal 'c

text \<open>
  The state the functions run in: the package variable \<open>credentialers\<close>, the store
  behind \<open>cm.store\<close>, and the log of events so far.
\<close>

record ('s, 'c) world =
  credentialers :: "string \<rightharpoonup> (unit \<Rightarrow> 'c)"
  store :: "'s"
  trace :: "'c event list"

definition emit :: "'c event \<Rightarrow> ('s, 'c) world \<Rightarrow> ('s, 'c) world" where
  "emit e w = w\<lparr>trace := trace w @ [e]\<rparr>"

text \<open>The error codes: \<open>iota\<close> counts from 0.\<close>

definition ErrCredentialDuplicate :: int where
  "ErrCredentialDuplicate = 0"

definition ErrCredentialNotFound :: int where
  "ErrCredentialNotFound = 1"

record CredentialError =
  Code :: int
  Message :: string

text \<open>\<open>CredentialError{Message: m}\<close>: the field \<open>Code\<close> is left at Go's zero value.\<close>

definition MessageOnly :: "string \<Rightarrow> CredentialError" where
  "MessageOnly m = \<lparr>Code = 0, Message = m\<rparr>"

text \<open>
  An \<open>io.Reader\<close> is given by what \<open>ioutil.ReadAll\<close> returns on it: an error or all
  its bytes.
\<close>

type_synonym reader = "error + bytes"

subsection \<open>The registry\<close>

text \<open>
  \<open>RegisterCredentialer\<close> takes the mutex, writes the map and releases the mutex on
  return (\<open>defer\<close>). \<open>NewCredential\<close> reads the map and calls the factory it
  finds. A factory is a function that returns an empty shape; a nil function value, on
  which the call would panic, is not a value of the model.
\<close>

definition RegisterCredentialer ::
  "string \<Rightarrow> (unit \<Rightarrow> 'c) \<Rightarrow> ('s, 'c) world \<Rightarrow> ('s, 'c) world" where
  "RegisterCredentialer provisionerName f w =
     (let w1 = emit LockAcquire w;
          w2 = emit (MapWrite provisionerName)
                 (w1\<lparr>credentialers := (credentialers w1)(provisionerName \<mapsto> f)\<rparr>)
      in emit LockRelease w2)"

definition NewCredential ::
  "string \<Rightarrow> ('s, 'c) world \<Rightarrow> (error + 'c) \<times> ('s, 'c) world" where
  "NewCredential provisionerName w =
     (let w1 = emit (MapRead provisionerName) w
      in case credentialers w1 provisionerName of
           Some c \<Rightarrow> (Inr (c ()), w1)
         | None \<Rightarrow> (Inl (''Unknown provisioner: '' @ provisionerName), w1))"

subsection \<open>The codec\<close>

definition ensureValidCredentialContentType ::
  "('s, 'c) collaborators \<Rightarrow> 'c codec option \<Rightarrow> 'c codec" where
  "ensureValidCredentialContentType C ct =
     (case ct of Some c \<Rightarrow> c | None \<Rightarrow> DefaultContentType C)"

definition Unmarshal ::
  "('s, 'c) collaborators \<Rightarrow> 'c codec option \<Rightarrow> bytes \<Rightarrow> 'c \<Rightarrow> ('s, 'c) world
     \<Rightarrow> (error + 'c) \<times> ('s, 'c) world" where
  "Unmarshal C contentType data cred w =
     (unmarshal (ensureValidCredentialContentType C contentType) data cred,
      emit (CodecUnmarshal data cred) w)"

definition Marshal ::
  "('s, 'c) collaborators \<Rightarrow> 'c codec option \<Rightarrow> 'c \<Rightarrow> ('s, 'c) world
     \<Rightarrow> (error + bytes) \<times> ('s, 'c) world" where
  "Marshal C contentType cred w =
     (marshal (ensureValidCredentialContentType C contentType) cred,
      emit (CodecMarshal cred) w)"

subsection \<open>The operations on the store\<close>

text \<open>The loop of \<open>ListIds\<close>: \<open>out = append(out, string(i))\<close> for every \<open>i\<close>.\<close>

fun ListIds_loop :: "CredentialsID list \<Rightarrow> string list \<Rightarrow> string list" where
  "ListIds_loop [] out = out"
| "ListIds_loop (i # rest) out = ListIds_loop rest (out @ [string_of i])"

definition ListIds ::
  "('s, 'c) collaborators \<Rightarrow> ('s, 'c) world \<Rightarrow> (error + string list) \<times> ('s, 'c) world" where
  "ListIds C w =
     (let w1 = emit StoreList w
      in case store_List C (store w) of
           Inl err \<Rightarrow> (Inl err, w1)
         | Inr list \<Rightarrow> (Inr (ListIds_loop list []), w1))"

definition Save ::
  "('s, 'c) collaborators \<Rightarrow> string \<Rightarrow> 'c \<Rightarrow> ('s, 'c) world
     \<Rightarrow> error option \<times> ('s, 'c) world" where
  "Save C key cred w =
     (case store_Save C (store w) (CredentialsID key) cred of
        (err, s) \<Rightarrow> (err, emit (StoreSave (CredentialsID key) cred) (w\<lparr>store := s\<rparr>)))"

definition Get ::
  "('s, 'c) collaborators \<Rightarrow> string \<Rightarrow> ('s, 'c) world \<Rightarrow> (error + 'c) \<times> ('s, 'c) world" where
  "Get C key w =
     (let base = CredentialBase C;
          w1 = emit (StoreGet (CredentialsID key) base) w
      in case store_GetCredentials C (store w) (CredentialsID key) base of
           Inl err \<Rightarrow> (Inl err, w1)
         | Inr base' \<Rightarrow>
             (case NewCredential (ProvisionerName C base') w1 of
                (Inl err, w2) \<Rightarrow> (Inl err, w2)
              | (Inr detail, w2) \<Rightarrow>
                  (let w3 = emit (StoreGet (CredentialsID key) detail) w2
                   in case store_GetCredentials C (store w2) (CredentialsID key) detail of
                        Inl err \<Rightarrow> (Inl err, w3)
                      | Inr detail' \<Rightarrow> (Inr detail', w3))))"

definition Delete ::
  "('s, 'c) collaborators \<Rightarrow> string \<Rightarrow> ('s, 'c) world \<Rightarrow> error option \<times> ('s, 'c) world" where
  "Delete C key w =
     (case store_Delete C (store w) (CredentialsID key) of
        (err, s) \<Rightarrow> (err, emit (StoreDelete (CredentialsID key)) (w\<lparr>store := s\<rparr>)))"

definition Exists ::
  "('s, 'c) collaborators \<Rightarrow> string \<Rightarrow> ('s, 'c) world \<Rightarrow> bool \<times> ('s, 'c) world" where
  "Exists C key w =
     (let base = CredentialBase C
      in (case store_GetCredentials C (store w) (CredentialsID key) base of
            Inl err \<Rightarrow> False
          | Inr base' \<Rightarrow> True,
          emit (StoreGet (CredentialsID key) base) w))"

definition ReadAll :: "reader \<Rightarrow> ('s, 'c) world \<Rightarrow> (error + bytes) \<times> ('s, 'c) world" where
  "ReadAll input w = (input, emit ReadAllInput w)"

subsection \<open>Create and update\<close>

definition CreateCredential ::
  "('s, 'c) collaborators \<Rightarrow> string \<Rightarrow> string \<Rightarrow> reader \<Rightarrow> 'c codec option
     \<Rightarrow> ('s, 'c) world \<Rightarrow> CredentialError option \<times> ('s, 'c) world" where
  "CreateCredential C provisioner key input codec w =
     (case Exists C key w of
        (True, w1) \<Rightarrow>
          (Some \<lparr>Code = ErrCredentialDuplicate, Message = ''Key exists: '' @ key\<rparr>, w1)
      | (False, w1) \<Rightarrow>
          (case NewCredential provisioner w1 of
             (Inl err, w2) \<Rightarrow>
               (Some \<lparr>Code = ErrCredentialNotFound,
                      Message = ''Unknown provisioner:'' @ provisioner\<rparr>, w2)
           | (Inr cr, w2) \<Rightarrow>
               (case ReadAll input w2 of
                  (Inl err, w3) \<Rightarrow> (Some (MessageOnly err), w3)
                | (Inr buff, w3) \<Rightarrow>
                    (case Unmarshal C codec buff cr w3 of
                       (Inl err, w4) \<Rightarrow> (Some (MessageOnly err), w4)
                     | (Inr cr', w4) \<Rightarrow>
                         (case Save C key cr' w4 of
                            (Some err, w5) \<Rightarrow> (Some (MessageOnly err), w5)
                          | (None, w5) \<Rightarrow> (None, w5))))))"

definition UpdateCredential ::
  "('s, 'c) collaborators \<Rightarrow> string \<Rightarrow> reader \<Rightarrow> 'c codec option
     \<Rightarrow> ('s, 'c) world \<Rightarrow> CredentialError option \<times> ('s, 'c) world" where
  "UpdateCredential C key input codec w =
     (case Exists C key w of
        (False, w1) \<Rightarrow>
          (Some \<lparr>Code = ErrCredentialNotFound,
                 Message = ''Credential not found: '' @ key\<rparr>, w1)
      | (True, w1) \<Rightarrow>
          (case ReadAll input w1 of
             (Inl err, w2) \<Rightarrow> (Some (MessageOnly err), w2)
           | (Inr buff, w2) \<Rightarrow>
               (case Unmarshal C codec buff (CredentialBase C) w2 of
                  (Inl err, w3) \<Rightarrow> (Some (MessageOnly err), w3)
                | (Inr base, w3) \<Rightarrow>
                    (case NewCredential (ProvisionerName C base) w3 of
                       (Inl err, w4) \<Rightarrow>
                         (Some \<lparr>Code = ErrCredentialNotFound,
                                Message = ''Unknow provisioner: '' @ ProvisionerName C base\<rparr>, w4)
                     | (Inr detail, w4) \<Rightarrow>
                         (case Unmarshal C codec buff detail w4 of
                            (Inl err, w5) \<Rightarrow> (Some (MessageOnly err), w5)
                          | (Inr detail', w5) \<Rightarrow>
                              (case Save C key detail' w5 of
                                 (Some err, w6) \<Rightarrow> (Some (MessageOnly err), w6)
                               | (None, w6) \<Rightarrow> (None, w6)))))))"

section \<open>An in-memory instance\<close>

text \<open>
  A small instance of the collaborators, to run the manager on concrete inputs: two
  provisioners, a codec over comma-separated fields whose first field is the provisioner
  name, and a store that keeps the fields of each record in an association list.
\<close>

datatype shape =
    Base string
  | Aws string string string
  | Gcp string string

fun csv_fields :: "string \<Rightarrow> string list" where
  "csv_fields [] = [[]]"
| "csv_fields (c # cs) =
     (if c = CHR '','' then [] # csv_fields cs
      else (case csv_fields cs of [] \<Rightarrow> [[c]] | f # fs \<Rightarrow> (c # f) # fs))"

fun fill :: "string list \<Rightarrow> shape \<Rightarrow> error + shape" where
  "fill (p # rest) (Base x) = Inr (Base p)"
| "fill [p, a, b] (Aws x y z) = Inr (Aws p a b)"
| "fill [p, t] (Gcp x y) = Inr (Gcp p t)"
| "fill fs target = Inl ''cannot decode''"

fun unfill :: "shape \<Rightarrow> string list" where
  "unfill (Base p) = [p]"
| "unfill (Aws p a b) = [p, a, b]"
| "unfill (Gcp p t) = [p, t]"

fun csv_join :: "string list \<Rightarrow> string" where
  "csv_join [] = []"
| "csv_join [f] = f"
| "csv_join (f # g # fs) = f @ CHR '','' # csv_join (g # fs)"

fun name_of :: "shape \<Rightarrow> string" where
  "name_of (Base p) = p"
| "name_of (Aws p a b) = p"
| "name_of (Gcp p t) = p"

definition csv :: "shape codec" where
  "csv = \<lparr>unmarshal = (\<lambda>data cred.
            if data = [] then Inl ''empty payload'' else fill (csv_fields data) cred),
          marshal = (\<lambda>cred. Inr (csv_join (unfill cred)))\<rparr>"

type_synonym mem = "(CredentialsID \<times> string list) list"

definition mem_get :: "mem \<Rightarrow> CredentialsID \<Rightarrow> shape \<Rightarrow> error + shape" where
  "mem_get s i target =
     (case map_of s i of None \<Rightarrow> Inl ''no such credential'' | Some fs \<Rightarrow> fill fs target)"

definition mem_save :: "mem \<Rightarrow> CredentialsID \<Rightarrow> shape \<Rightarrow> error option \<times> mem" where
  "mem_save s i cred = (None, (i, unfill cred) # filter (\<lambda>kv. fst kv \<noteq> i) s)"

definition mem_delete :: "mem \<Rightarrow> CredentialsID \<Rightarrow> error option \<times> mem" where
  "mem_delete s i =
     (case map_of s i of
        None \<Rightarrow> (Some ''no such credential'', s)
      | Some fs \<Rightarrow> (None, filter (\<lambda>kv. fst kv \<noteq> i) s))"

definition mem_collab :: "(mem, shape) collaborators" where
  "mem_collab =
     \<lparr>store_List = (\<lambda>s. Inr (map fst s)),
      store_Save = mem_save,
      store_GetCredentials = mem_get,
      store_Delete = mem_delete,
      ProvisionerName = name_of,
      CredentialBase = Base [],
      DefaultContentType = csv\<rparr>"

text \<open>
  The registry after the two provisioners have registered, over an empty store and over
  a store that holds one aws credential under the key k1.
\<close>

definition registered :: "string \<rightharpoonup> (unit \<Rightarrow> shape)" where
  "registered = [''aws'' \<mapsto> (\<lambda>u. Aws [] [] []), ''gcp'' \<mapsto> (\<lambda>u. Gcp [] [])]"

definition world0 :: "(mem, shape) world" where
  "world0 = \<lparr>credentialers = registered, store = [], trace = []\<rparr>"

definition world1 :: "(mem, shape) world" where
  "world1 = \<lparr>credentialers = registered,
             store = [(CredentialsID ''k1'', [''aws'', ''A'', ''B''])], trace = []\<rparr>"

text \<open>
  A store with a record of a provisioner that never registered, and a record that names
  aws but lacks a field of the aws shape.
\<close>

definition world2 :: "(mem, shape) world" where
  "world2 = \<lparr>credentialers = registered,
             store = [(CredentialsID ''k3'', [''azure'', ''X'']),
                      (CredentialsID ''k4'', [''aws'', ''A''])], trace = []\<rparr>"

section \<open>A law of the store\<close>

text \<open>
  The store is a collaborator, so nothing in credentials.go says that a record saved
  can be read back. Where a property needs it, it is this hypothesis on the store: after
  a \<open>Save\<close> that returned nil, a read of the same key into the base shape succeeds.
\<close>

definition read_after_write :: "('s, 'c) collaborators \<Rightarrow> bool" where
  "read_after_write C =
     (\<forall>s i cred s'. store_Save C s i cred = (None, s') \<longrightarrow>
        (\<exists>b. store_GetCredentials C s' i (CredentialBase C) = Inr b))"

section \<open>Facts about the operations\<close>

lemma store_emit: "store (emit e w) = store w"
  by (simp add: emit_def)

lemma credentialers_emit: "credentialers (emit e w) = credentialers w"
  by (simp add: emit_def)

lemma trace_emit: "trace (emit e w) = trace w @ [e]"
  by (simp add: emit_def)

lemma Exists_pair:
  "Exists C key w = (fst (Exists C key w), emit (StoreGet (CredentialsID key) (CredentialBase C)) w)"
  by (simp add: Exists_def Let_def)

lemma fst_Exists_iff:
  "fst (Exists C key w) =
     (\<exists>b. store_GetCredentials C (store w) (CredentialsID key) (CredentialBase C) = Inr b)"
  by (simp add: Exists_def Let_def split: sum.split)

lemma NewCredential_unknown:
  "credentialers w name = None \<Longrightarrow>
     NewCredential name w = (Inl (''Unknown provisioner: '' @ name), emit (MapRead name) w)"
  by (simp add: NewCredential_def Let_def credentialers_emit)

lemma NewCredential_known:
  "credentialers w name = Some f \<Longrightarrow> NewCredential name w = (Inr (f ()), emit (MapRead name) w)"
  by (simp add: NewCredential_def Let_def credentialers_emit)

lemma CreateCredential_existing:
  assumes "fst (Exists C key w)"
  shows "CreateCredential C provisioner key input codec w =
           (Some \<lparr>Code = ErrCredentialDuplicate, Message = ''Key exists: '' @ key\<rparr>,
            w\<lparr>trace := trace w @ [StoreGet (CredentialsID key) (CredentialBase C)]\<rparr>)"
  unfolding CreateCredential_def
  by (subst Exists_pair) (simp add: assms emit_def)

lemma CreateCredential_unknown:
  assumes "\<not> fst (Exists C key w)" and "credentialers w provisioner = None"
  shows "CreateCredential C provisioner key input codec w =
           (Some \<lparr>Code = ErrCredentialNotFound,
                  Message = ''Unknown provisioner:'' @ provisioner\<rparr>,
            w\<lparr>trace := trace w @ [StoreGet (CredentialsID key) (CredentialBase C),
                                   MapRead provisioner]\<rparr>)"
  unfolding CreateCredential_def
  by (subst Exists_pair) (simp add: assms NewCredential_unknown credentialers_emit emit_def)

lemma CreateCredential_decode_fails:
  assumes "\<not> fst (Exists C key w)" and "credentialers w provisioner = Some f"
    and "unmarshal (ensureValidCredentialContentType C codec) buff (f ()) = Inl err"
  shows "CreateCredential C provisioner key (Inr buff) codec w =
           (Some (MessageOnly err),
            w\<lparr>trace := trace w @ [StoreGet (CredentialsID key) (CredentialBase C),
                                   MapRead provisioner, ReadAllInput,
                                   CodecUnmarshal buff (f ())]\<rparr>)"
  unfolding CreateCredential_def
  by (subst Exists_pair)
     (simp add: assms NewCredential_known credentialers_emit ReadAll_def Unmarshal_def emit_def)

lemma CreateCredential_saves:
  assumes "\<not> fst (Exists C key w)" and "credentialers w provisioner = Some f"
    and "unmarshal (ensureValidCredentialContentType C codec) buff (f ()) = Inr cr"
    and "store_Save C (store w) (CredentialsID key) cr = (r, s)"
  shows "CreateCredential C provisioner key (Inr buff) codec w =
           (map_option MessageOnly r,
            w\<lparr>store := s,
              trace := trace w @ [StoreGet (CredentialsID key) (CredentialBase C),
                                   MapRead provisioner, ReadAllInput,
                                   CodecUnmarshal buff (f ()),
                                   StoreSave (CredentialsID key) cr]\<rparr>)"
  unfolding CreateCredential_def
  by (subst Exists_pair)
     (simp add: assms NewCredential_known credentialers_emit ReadAll_def Unmarshal_def
        Save_def emit_def split: option.split)

lemma UpdateCredential_absent:
  assumes "\<not> fst (Exists C key w)"
  shows "UpdateCredential C key input codec w =
           (Some \<lparr>Code = ErrCredentialNotFound,
                  Message = ''Credential not found: '' @ key\<rparr>,
            w\<lparr>trace := trace w @ [StoreGet (CredentialsID key) (CredentialBase C)]\<rparr>)"
  unfolding UpdateCredential_def
  by (subst Exists_pair) (simp add: assms emit_def)

lemma UpdateCredential_base_fails:
  assumes "fst (Exists C key w)"
    and "unmarshal (ensureValidCredentialContentType C codec) buff (CredentialBase C) = Inl err"
  shows "UpdateCredential C key (Inr buff) codec w =
           (Some (MessageOnly err),
            w\<lparr>trace := trace w @ [StoreGet (CredentialsID key) (CredentialBase C),
                                   ReadAllInput, CodecUnmarshal buff (CredentialBase C)]\<rparr>)"
  unfolding UpdateCredential_def
  by (subst Exists_pair) (simp add: assms ReadAll_def Unmarshal_def emit_def)

lemma UpdateCredential_unknown:
  assumes "fst (Exists C key w)"
    and "unmarshal (ensureValidCredentialContentType C codec) buff (CredentialBase C) = Inr b"
    and "credentialers w (ProvisionerName C b) = None"
  shows "UpdateCredential C key (Inr buff) codec w =
           (Some \<lparr>Code = ErrCredentialNotFound,
                  Message = ''Unknow provisioner: '' @ ProvisionerName C b\<rparr>,
            w\<lparr>trace := trace w @ [StoreGet (CredentialsID key) (CredentialBase C),
                                   ReadAllInput, CodecUnmarshal buff (CredentialBase C),
                                   MapRead (ProvisionerName C b)]\<rparr>)"
  unfolding UpdateCredential_def
  by (subst Exists_pair)
     (simp add: assms ReadAll_def Unmarshal_def NewCredential_unknown credentialers_emit emit_def)

lemma UpdateCredential_detail_fails:
  assumes "fst (Exists C key w)"
    and "unmarshal (ensureValidCredentialContentType C codec) buff (CredentialBase C) = Inr b"
    and "credentialers w (ProvisionerName C b) = Some f"
    and "unmarshal (ensureValidCredentialContentType C codec) buff (f ()) = Inl err"
  shows "UpdateCredential C key (Inr buff) codec w =
           (Some (MessageOnly err),
            w\<lparr>trace := trace w @ [StoreGet (CredentialsID key) (CredentialBase C),
                                   ReadAllInput, CodecUnmarshal buff (CredentialBase C),
                                   MapRead (ProvisionerName C b),
                                   CodecUnmarshal buff (f ())]\<rparr>)"
  unfolding UpdateCredential_def
  by (subst Exists_pair)
     (simp add: assms ReadAll_def Unmarshal_def NewCredential_known credentialers_emit emit_def)

lemma UpdateCredential_saves:
  assumes "fst (Exists C key w)"
    and "unmarshal (ensureValidCredentialContentType C codec) buff (CredentialBase C) = Inr b"
    and "credentialers w (ProvisionerName C b) = Some f"
    and "unmarshal (ensureValidCredentialContentType C codec) buff (f ()) = Inr d"
    and "store_Save C (store w) (CredentialsID key) d = (r, s)"
  shows "UpdateCredential C key (Inr buff) codec w =
           (map_option MessageOnly r,
            w\<lparr>store := s,
              trace := trace w @ [StoreGet (CredentialsID key) (CredentialBase C),
                                   ReadAllInput, CodecUnmarshal buff (CredentialBase C),
                                   MapRead (ProvisionerName C b),
                                   CodecUnmarshal buff (f ()),
                                   StoreSave (CredentialsID key) d]\<rparr>)"
  unfolding UpdateCredential_def
  by (subst Exists_pair)
     (simp add: assms ReadAll_def Unmarshal_def NewCredential_known credentialers_emit
        Save_def emit_def split: option.split)

lemma credentialers_NewCredential:
  "credentialers (snd (NewCredential name w)) = credentialers w"
  by (simp add: NewCredential_def Let_def credentialers_emit split: option.split)

lemma credentialers_NewCredential':
  "NewCredential name w = (r, w') \<Longrightarrow> credentialers w' = credentialers w"
  using credentialers_NewCredential [of name w] by simp

lemma credentialers_Exists:
  "credentialers (snd (Exists C key w)) = credentialers w"
  by (simp add: Exists_def Let_def credentialers_emit)

lemma credentialers_Exists':
  "Exists C key w = (r, w') \<Longrightarrow> credentialers w' = credentialers w"
  using credentialers_Exists [of C key w] by simp

lemma credentialers_ReadAll':
  "ReadAll input w = (r, w') \<Longrightarrow> credentialers w' = credentialers w"
  by (auto simp: ReadAll_def credentialers_emit)

lemma credentialers_Unmarshal:
  "credentialers (snd (Unmarshal C codec data cred w)) = credentialers w"
  by (simp add: Unmarshal_def credentialers_emit)

lemma credentialers_Unmarshal':
  "Unmarshal C codec data cred w = (r, w') \<Longrightarrow> credentialers w' = credentialers w"
  using credentialers_Unmarshal [of C codec data cred w] by simp

lemma credentialers_Save:
  "credentialers (snd (Save C key cred w)) = credentialers w"
  by (simp add: Save_def credentialers_emit split: prod.split)

lemma credentialers_Save':
  "Save C key cred w = (r, w') \<Longrightarrow> credentialers w' = credentialers w"
  using credentialers_Save [of C key cred w] by simp

lemma CreateCredential_success_exists:
  assumes "read_after_write C"
    and "fst (CreateCredential C provisioner key input codec w) = None"
  shows "fst (Exists C key (snd (CreateCredential C provisioner key input codec w)))"
proof -
  from assms(2) obtain cr s where
    saved: "store_Save C (store w) (CredentialsID key) cr = (None, s)"
    and after: "store (snd (CreateCredential C provisioner key input codec w)) = s"
    unfolding CreateCredential_def
    by (subst (asm) Exists_pair, subst (asm) (2) Exists_pair)
       (auto simp: NewCredential_def ReadAll_def Unmarshal_def Save_def emit_def Let_def
          MessageOnly_def split: if_splits option.splits sum.splits prod.splits bool.splits)
  from assms(1) saved obtain b where
    "store_GetCredentials C s (CredentialsID key) (CredentialBase C) = Inr b"
    unfolding read_after_write_def by blast
  with after show ?thesis
    by (simp add: fst_Exists_iff)
qed

lemma mem_read_after_write: "read_after_write mem_collab"
  unfolding read_after_write_def
proof (intro allI impI)
  fix s :: mem and i cred s'
  assume "store_Save mem_collab s i cred = (None, s')"
  then have "map_of s' i = Some (unfill cred)"
    by (auto simp: mem_collab_def mem_save_def)
  moreover have "fill (unfill cred) (Base []) = Inr (Base (name_of cred))"
    by (cases cred) simp_all
  ultimately show "\<exists>b. store_GetCredentials mem_collab s' i (CredentialBase mem_collab) = Inr b"
    by (simp add: mem_collab_def mem_get_def)
qed

section \<open>Properties\<close>

text \<open>
  C8. A nil content-type selector is resolved to the default codec before dispatch.
  \<open>ensureValidCredentialContentType\<close> maps nil to \<open>DefaultContentType\<close> and
  every other selector to itself. \<open>Unmarshal\<close> with nil returns what the
  \<open>unmarshal\<close> method of \<open>DefaultContentType\<close> returns on the same bytes and shape,
  and \<open>Marshal\<close> with nil returns what its \<open>marshal\<close> method returns on the same
  shape; each makes that one codec call and nothing else. Hence a call with nil and a
  call with \<open>DefaultContentType\<close> itself are the same, on every payload, shape and
  state. With a selector that is not nil, the methods of that selector are the ones
  called.
\<close>

theorem nil_selector_is_default:
  "ensureValidCredentialContentType C None = DefaultContentType C
   \<and> ensureValidCredentialContentType C (Some ct) = ct
   \<and> Unmarshal C None data cred w =
       (unmarshal (DefaultContentType C) data cred,
        w\<lparr>trace := trace w @ [CodecUnmarshal data cred]\<rparr>)
   \<and> Marshal C None cred w =
       (marshal (DefaultContentType C) cred,
        w\<lparr>trace := trace w @ [CodecMarshal cred]\<rparr>)
   \<and> Unmarshal C (Some ct) data cred w =
       (unmarshal ct data cred, w\<lparr>trace := trace w @ [CodecUnmarshal data cred]\<rparr>)
   \<and> Marshal C (Some ct) cred w =
       (marshal ct cred, w\<lparr>trace := trace w @ [CodecMarshal cred]\<rparr>)
   \<and> Unmarshal C None data cred w = Unmarshal C (Some (DefaultContentType C)) data cred w
   \<and> Marshal C None cred w = Marshal C (Some (DefaultContentType C)) cred w"
  by (simp add: Unmarshal_def Marshal_def ensureValidCredentialContentType_def emit_def)

text \<open>
  C1. \<open>Get\<close> decodes in two phases. It reads the record at the key into the base
  shape; if that read fails, it returns that error and does nothing else. Otherwise it
  looks the provisioner name of the base shape up in the registry; if no factory is
  registered under it, it fails with the unknown-provisioner error of
  \<open>NewCredential\<close>. Otherwise it reads the record at the same key again, into the
  shape the factory made, and returns what that read returns: its error or the filled
  shape.
\<close>

theorem Get_two_phase_decode:
  "(\<forall>err. store_GetCredentials C (store w) (CredentialsID key) (CredentialBase C) = Inl err \<longrightarrow>
      Get C key w =
        (Inl err, w\<lparr>trace := trace w @ [StoreGet (CredentialsID key) (CredentialBase C)]\<rparr>))
   \<and> (\<forall>b. store_GetCredentials C (store w) (CredentialsID key) (CredentialBase C) = Inr b \<longrightarrow>
      credentialers w (ProvisionerName C b) = None \<longrightarrow>
      Get C key w =
        (Inl (''Unknown provisioner: '' @ ProvisionerName C b),
         w\<lparr>trace := trace w @ [StoreGet (CredentialsID key) (CredentialBase C),
                                MapRead (ProvisionerName C b)]\<rparr>))
   \<and> (\<forall>b f. store_GetCredentials C (store w) (CredentialsID key) (CredentialBase C) = Inr b \<longrightarrow>
      credentialers w (ProvisionerName C b) = Some f \<longrightarrow>
      Get C key w =
        (store_GetCredentials C (store w) (CredentialsID key) (f ()),
         w\<lparr>trace := trace w @ [StoreGet (CredentialsID key) (CredentialBase C),
                                MapRead (ProvisionerName C b),
                                StoreGet (CredentialsID key) (f ())]\<rparr>))"
  by (simp add: Get_def Let_def NewCredential_unknown NewCredential_known credentialers_emit
      store_emit emit_def split: sum.split)

theorem Get_two_phase_decode_witness:
  "store_GetCredentials mem_collab (store world1) (CredentialsID ''k9'') (CredentialBase mem_collab)
     = Inl ''no such credential''
   \<and> Get mem_collab ''k9'' world1 =
       (Inl ''no such credential'',
        world1\<lparr>trace := [StoreGet (CredentialsID ''k9'') (Base [])]\<rparr>)
   \<and> store_GetCredentials mem_collab (store world2) (CredentialsID ''k3'') (CredentialBase mem_collab)
     = Inr (Base ''azure'')
   \<and> credentialers world2 ''azure'' = None
   \<and> Get mem_collab ''k3'' world2 =
       (Inl ''Unknown provisioner: azure'',
        world2\<lparr>trace := [StoreGet (CredentialsID ''k3'') (Base []), MapRead ''azure'']\<rparr>)
   \<and> store_GetCredentials mem_collab (store world2) (CredentialsID ''k4'') (CredentialBase mem_collab)
     = Inr (Base ''aws'')
   \<and> Get mem_collab ''k4'' world2 =
       (Inl ''cannot decode'',
        world2\<lparr>trace := [StoreGet (CredentialsID ''k4'') (Base []), MapRead ''aws'',
                          StoreGet (CredentialsID ''k4'') (Aws [] [] [])]\<rparr>)
   \<and> store_GetCredentials mem_collab (store world1) (CredentialsID ''k1'') (CredentialBase mem_collab)
     = Inr (Base ''aws'')
   \<and> Get mem_collab ''k1'' world1 =
       (Inr (Aws ''aws'' ''A'' ''B''),
        world1\<lparr>trace := [StoreGet (CredentialsID ''k1'') (Base []), MapRead ''aws'',
                          StoreGet (CredentialsID ''k1'') (Aws [] [] [])]\<rparr>)"
  using Get_two_phase_decode [where C = mem_collab and w = world1 and key = "''k9''"]
    Get_two_phase_decode [where C = mem_collab and w = world2 and key = "''k3''"]
    Get_two_phase_decode [where C = mem_collab and w = world2 and key = "''k4''"]
    Get_two_phase_decode [where C = mem_collab and w = world1 and key = "''k1''"]
  by (simp add: mem_collab_def mem_get_def world1_def world2_def registered_def)

text \<open>
  C2. When \<open>Exists\<close> is true on the key, \<open>CreateCredential\<close> fails with the code
  \<open>ErrCredentialDuplicate\<close> and the message naming the key, after the one read of
  \<open>Exists\<close> and nothing else: no call on the registry, the codec or \<open>Save\<close>, so
  the store is the one it started from. Hence, over a store where a saved record can be
  read back, a \<open>CreateCredential\<close> that succeeded followed by any \<open>CreateCredential\<close> on
  the same key gives Duplicate on the second call and leaves the store as the first call
  left it.
\<close>

theorem CreateCredential_duplicate:
  "(fst (Exists C key w) \<longrightarrow>
      CreateCredential C provisioner key input codec w =
        (Some \<lparr>Code = ErrCredentialDuplicate, Message = ''Key exists: '' @ key\<rparr>,
         w\<lparr>trace := trace w @ [StoreGet (CredentialsID key) (CredentialBase C)]\<rparr>))
   \<and> (read_after_write C \<longrightarrow>
      fst (CreateCredential C provisioner key input codec w) = None \<longrightarrow>
      fst (CreateCredential C provisioner' key input' codec'
             (snd (CreateCredential C provisioner key input codec w)))
        = Some \<lparr>Code = ErrCredentialDuplicate, Message = ''Key exists: '' @ key\<rparr>
      \<and> store (snd (CreateCredential C provisioner' key input' codec'
                       (snd (CreateCredential C provisioner key input codec w))))
        = store (snd (CreateCredential C provisioner key input codec w)))"
proof (intro conjI impI)
  assume "fst (Exists C key w)"
  then show "CreateCredential C provisioner key input codec w =
        (Some \<lparr>Code = ErrCredentialDuplicate, Message = ''Key exists: '' @ key\<rparr>,
         w\<lparr>trace := trace w @ [StoreGet (CredentialsID key) (CredentialBase C)]\<rparr>)"
    by (rule CreateCredential_existing)
next
  assume law: "read_after_write C"
    and ok: "fst (CreateCredential C provisioner key input codec w) = None"
  define w1 where "w1 = snd (CreateCredential C provisioner key input codec w)"
  from law ok have ex: "fst (Exists C key w1)"
    unfolding w1_def by (rule CreateCredential_success_exists)
  show "fst (CreateCredential C provisioner' key input' codec'
             (snd (CreateCredential C provisioner key input codec w)))
        = Some \<lparr>Code = ErrCredentialDuplicate, Message = ''Key exists: '' @ key\<rparr>"
    using CreateCredential_existing [OF ex, of provisioner' input' codec']
    by (simp add: w1_def)
  show "store (snd (CreateCredential C provisioner' key input' codec'
                       (snd (CreateCredential C provisioner key input codec w))))
        = store (snd (CreateCredential C provisioner key input codec w))"
    using CreateCredential_existing [OF ex, of provisioner' input' codec']
    by (simp add: w1_def)
qed

theorem CreateCredential_duplicate_witness:
  "fst (Exists mem_collab ''k1'' world1)
   \<and> CreateCredential mem_collab ''gcp'' ''k1'' (Inr ''gcp,T'') None world1 =
       (Some \<lparr>Code = ErrCredentialDuplicate, Message = ''Key exists: k1''\<rparr>,
        world1\<lparr>trace := [StoreGet (CredentialsID ''k1'') (Base [])]\<rparr>)
   \<and> read_after_write mem_collab
   \<and> fst (CreateCredential mem_collab ''aws'' ''k1'' (Inr ''aws,A,B'') None world0) = None
   \<and> fst (CreateCredential mem_collab ''gcp'' ''k1'' (Inr ''gcp,T'') (Some csv)
            (snd (CreateCredential mem_collab ''aws'' ''k1'' (Inr ''aws,A,B'') None world0)))
       = Some \<lparr>Code = ErrCredentialDuplicate, Message = ''Key exists: k1''\<rparr>
   \<and> store (snd (CreateCredential mem_collab ''gcp'' ''k1'' (Inr ''gcp,T'') (Some csv)
            (snd (CreateCredential mem_collab ''aws'' ''k1'' (Inr ''aws,A,B'') None world0))))
       = [(CredentialsID ''k1'', [''aws'', ''A'', ''B''])]"
proof -
  have ex: "fst (Exists mem_collab ''k1'' world1)"
    by (simp add: Exists_def mem_collab_def mem_get_def world1_def)
  have first: "CreateCredential mem_collab ''aws'' ''k1'' (Inr ''aws,A,B'') None world0 =
      (None, world0\<lparr>store := [(CredentialsID ''k1'', [''aws'', ''A'', ''B''])],
                   trace := [StoreGet (CredentialsID ''k1'') (Base []), MapRead ''aws'',
                             ReadAllInput, CodecUnmarshal ''aws,A,B'' (Aws [] [] []),
                             StoreSave (CredentialsID ''k1'') (Aws ''aws'' ''A'' ''B'')]\<rparr>)"
    by (simp add: CreateCredential_def Exists_def NewCredential_def ReadAll_def Unmarshal_def
        Save_def ensureValidCredentialContentType_def emit_def mem_collab_def mem_get_def
        mem_save_def csv_def world0_def registered_def)
  show ?thesis
    using ex first mem_read_after_write
      CreateCredential_duplicate [where C = mem_collab and key = "''k1''" and w = world1
        and provisioner = "''gcp''" and input = "Inr ''gcp,T''" and codec = None]
      CreateCredential_duplicate [where C = mem_collab and key = "''k1''" and w = world0
        and provisioner = "''aws''" and input = "Inr ''aws,A,B''" and codec = None
        and provisioner' = "''gcp''" and input' = "Inr ''gcp,T''" and codec' = "Some csv"]
    by (simp add: mem_collab_def world1_def)
qed

text \<open>
  C3. When \<open>Exists\<close> is false on the key, \<open>UpdateCredential\<close> fails with the code
  \<open>ErrCredentialNotFound\<close> after the one read of \<open>Exists\<close>: the input is not read,
  nothing is decoded, \<open>Save\<close> is not called, and the store is the one it started from,
  so the key is still absent.
\<close>

theorem UpdateCredential_not_found:
  "\<not> fst (Exists C key w) \<Longrightarrow>
     UpdateCredential C key input codec w =
       (Some \<lparr>Code = ErrCredentialNotFound, Message = ''Credential not found: '' @ key\<rparr>,
        w\<lparr>trace := trace w @ [StoreGet (CredentialsID key) (CredentialBase C)]\<rparr>)
     \<and> store (snd (UpdateCredential C key input codec w)) = store w
     \<and> \<not> fst (Exists C key (snd (UpdateCredential C key input codec w)))"
  by (simp add: UpdateCredential_absent fst_Exists_iff)

theorem UpdateCredential_not_found_witness:
  "\<not> fst (Exists mem_collab ''k2'' world1)
   \<and> UpdateCredential mem_collab ''k2'' (Inr ''aws,A2,B2'') None world1 =
       (Some \<lparr>Code = ErrCredentialNotFound, Message = ''Credential not found: k2''\<rparr>,
        world1\<lparr>trace := [StoreGet (CredentialsID ''k2'') (Base [])]\<rparr>)
   \<and> store (snd (UpdateCredential mem_collab ''k2'' (Inr ''aws,A2,B2'') None world1))
       = [(CredentialsID ''k1'', [''aws'', ''A'', ''B''])]
   \<and> \<not> fst (Exists mem_collab ''k2''
              (snd (UpdateCredential mem_collab ''k2'' (Inr ''aws,A2,B2'') None world1)))"
proof -
  have absent: "\<not> fst (Exists mem_collab ''k2'' world1)"
    by (simp add: Exists_def mem_collab_def mem_get_def world1_def)
  show ?thesis
    using absent UpdateCredential_not_found [OF absent, of "Inr ''aws,A2,B2''" None]
    by (simp add: Exists_def mem_collab_def mem_get_def world1_def)
qed

text \<open>
  C4. On an existing key \<open>UpdateCredential\<close> decodes the input bytes in two phases,
  and the store is not consulted for it: the bytes are decoded into the base shape, the
  provisioner name of that shape is looked up in the registry, the same bytes are decoded
  again into the shape the factory made, and only then \<open>Save\<close> is called, with the
  shape of the second decode. When either decode fails, its message is returned,
  \<open>Save\<close> is not called and the store is the one the call started from.
\<close>

theorem UpdateCredential_two_phase_decode:
  assumes "fst (Exists C key w)"
  shows
  "(\<forall>b f d r s.
      unmarshal (ensureValidCredentialContentType C codec) buff (CredentialBase C) = Inr b \<longrightarrow>
      credentialers w (ProvisionerName C b) = Some f \<longrightarrow>
      unmarshal (ensureValidCredentialContentType C codec) buff (f ()) = Inr d \<longrightarrow>
      store_Save C (store w) (CredentialsID key) d = (r, s) \<longrightarrow>
      UpdateCredential C key (Inr buff) codec w =
        (map_option MessageOnly r,
         w\<lparr>store := s,
           trace := trace w @ [StoreGet (CredentialsID key) (CredentialBase C),
                                ReadAllInput, CodecUnmarshal buff (CredentialBase C),
                                MapRead (ProvisionerName C b),
                                CodecUnmarshal buff (f ()),
                                StoreSave (CredentialsID key) d]\<rparr>))
   \<and> (\<forall>err.
      unmarshal (ensureValidCredentialContentType C codec) buff (CredentialBase C) = Inl err \<longrightarrow>
      UpdateCredential C key (Inr buff) codec w =
        (Some (MessageOnly err),
         w\<lparr>trace := trace w @ [StoreGet (CredentialsID key) (CredentialBase C),
                                ReadAllInput, CodecUnmarshal buff (CredentialBase C)]\<rparr>)
      \<and> store (snd (UpdateCredential C key (Inr buff) codec w)) = store w)
   \<and> (\<forall>b f err.
      unmarshal (ensureValidCredentialContentType C codec) buff (CredentialBase C) = Inr b \<longrightarrow>
      credentialers w (ProvisionerName C b) = Some f \<longrightarrow>
      unmarshal (ensureValidCredentialContentType C codec) buff (f ()) = Inl err \<longrightarrow>
      UpdateCredential C key (Inr buff) codec w =
        (Some (MessageOnly err),
         w\<lparr>trace := trace w @ [StoreGet (CredentialsID key) (CredentialBase C),
                                ReadAllInput, CodecUnmarshal buff (CredentialBase C),
                                MapRead (ProvisionerName C b),
                                CodecUnmarshal buff (f ())]\<rparr>)
      \<and> store (snd (UpdateCredential C key (Inr buff) codec w)) = store w)"
proof (intro conjI allI impI)
  fix b f d r s
  assume "unmarshal (ensureValidCredentialContentType C codec) buff (CredentialBase C) = Inr b"
    and "credentialers w (ProvisionerName C b) = Some f"
    and "unmarshal (ensureValidCredentialContentType C codec) buff (f ()) = Inr d"
    and "store_Save C (store w) (CredentialsID key) d = (r, s)"
  with assms show "UpdateCredential C key (Inr buff) codec w =
        (map_option MessageOnly r,
         w\<lparr>store := s,
           trace := trace w @ [StoreGet (CredentialsID key) (CredentialBase C),
                                ReadAllInput, CodecUnmarshal buff (CredentialBase C),
                                MapRead (ProvisionerName C b),
                                CodecUnmarshal buff (f ()),
                                StoreSave (CredentialsID key) d]\<rparr>)"
    by (rule UpdateCredential_saves)
next
  fix err
  assume bad: "unmarshal (ensureValidCredentialContentType C codec) buff (CredentialBase C) = Inl err"
  show "UpdateCredential C key (Inr buff) codec w =
        (Some (MessageOnly err),
         w\<lparr>trace := trace w @ [StoreGet (CredentialsID key) (CredentialBase C),
                                ReadAllInput, CodecUnmarshal buff (CredentialBase C)]\<rparr>)"
    using assms bad by (rule UpdateCredential_base_fails)
  then show "store (snd (UpdateCredential C key (Inr buff) codec w)) = store w"
    by simp
next
  fix b f err
  assume "unmarshal (ensureValidCredentialContentType C codec) buff (CredentialBase C) = Inr b"
    and "credentialers w (ProvisionerName C b) = Some f"
    and "unmarshal (ensureValidCredentialContentType C codec) buff (f ()) = Inl err"
  with assms show *: "UpdateCredential C key (Inr buff) codec w =
        (Some (MessageOnly err),
         w\<lparr>trace := trace w @ [StoreGet (CredentialsID key) (CredentialBase C),
                                ReadAllInput, CodecUnmarshal buff (CredentialBase C),
                                MapRead (ProvisionerName C b),
                                CodecUnmarshal buff (f ())]\<rparr>)"
    by (rule UpdateCredential_detail_fails)
  then show "store (snd (UpdateCredential C key (Inr buff) codec w)) = store w"
    by simp
qed

theorem UpdateCredential_two_phase_decode_witness:
  "fst (Exists mem_collab ''k1'' world1)
   \<and> UpdateCredential mem_collab ''k1'' (Inr ''aws,A2,B2'') None world1 =
       (None,
        world1\<lparr>store := [(CredentialsID ''k1'', [''aws'', ''A2'', ''B2''])],
               trace := [StoreGet (CredentialsID ''k1'') (Base []), ReadAllInput,
                         CodecUnmarshal ''aws,A2,B2'' (Base []), MapRead ''aws'',
                         CodecUnmarshal ''aws,A2,B2'' (Aws [] [] []),
                         StoreSave (CredentialsID ''k1'') (Aws ''aws'' ''A2'' ''B2'')]\<rparr>)
   \<and> unmarshal csv [] (Base []) = Inl ''empty payload''
   \<and> UpdateCredential mem_collab ''k1'' (Inr []) None world1 =
       (Some (MessageOnly ''empty payload''),
        world1\<lparr>trace := [StoreGet (CredentialsID ''k1'') (Base []), ReadAllInput,
                         CodecUnmarshal [] (Base [])]\<rparr>)
   \<and> store (snd (UpdateCredential mem_collab ''k1'' (Inr []) None world1))
       = [(CredentialsID ''k1'', [''aws'', ''A'', ''B''])]
   \<and> unmarshal csv ''aws,A2'' (Base []) = Inr (Base ''aws'')
   \<and> unmarshal csv ''aws,A2'' (Aws [] [] []) = Inl ''cannot decode''
   \<and> UpdateCredential mem_collab ''k1'' (Inr ''aws,A2'') None world1 =
       (Some (MessageOnly ''cannot decode''),
        world1\<lparr>trace := [StoreGet (CredentialsID ''k1'') (Base []), ReadAllInput,
                         CodecUnmarshal ''aws,A2'' (Base []), MapRead ''aws'',
                         CodecUnmarshal ''aws,A2'' (Aws [] [] [])]\<rparr>)
   \<and> store (snd (UpdateCredential mem_collab ''k1'' (Inr ''aws,A2'') None world1))
       = [(CredentialsID ''k1'', [''aws'', ''A'', ''B''])]"
proof -
  have ex: "fst (Exists mem_collab ''k1'' world1)"
    by (simp add: Exists_def mem_collab_def mem_get_def world1_def)
  show ?thesis
    using ex
      UpdateCredential_two_phase_decode [OF ex, where codec = None and buff = "''aws,A2,B2''"]
      UpdateCredential_two_phase_decode [OF ex, where codec = None and buff = "[]"]
      UpdateCredential_two_phase_decode [OF ex, where codec = None and buff = "''aws,A2''"]
    by (simp add: ensureValidCredentialContentType_def mem_collab_def mem_save_def csv_def
        world1_def registered_def)
qed

text \<open>
  C5, as the specification states it: an unregistered provisioner name gives an error
  of a kind of its own, distinct from NotFound. The code has two codes only. With
  azure never registered, \<open>CreateCredential\<close> for azure on an absent key and
  \<open>UpdateCredential\<close> with an azure payload on an existing key both return the code
  \<open>ErrCredentialNotFound\<close>, the very code \<open>UpdateCredential\<close> returns for an
  absent key.
\<close>

theorem unknown_provisioner_kind_counterexample:
  "credentialers world1 ''azure'' = None
   \<and> map_option Code (fst (CreateCredential mem_collab ''azure'' ''k2'' (Inr ''azure,X'') None world1))
       = Some ErrCredentialNotFound
   \<and> map_option Code (fst (UpdateCredential mem_collab ''k1'' (Inr ''azure,X'') None world1))
       = Some ErrCredentialNotFound
   \<and> map_option Code (fst (UpdateCredential mem_collab ''k2'' (Inr ''aws,A,B'') None world1))
       = Some ErrCredentialNotFound"
  by (simp add: CreateCredential_def UpdateCredential_def Exists_def NewCredential_def
      ReadAll_def Unmarshal_def ensureValidCredentialContentType_def emit_def mem_collab_def
      mem_get_def csv_def world1_def registered_def)

text \<open>
  C5, amended. For a provisioner name with no registered factory, \<open>CreateCredential\<close>
  on an absent key fails with the code \<open>ErrCredentialNotFound\<close> and the message
  "Unknown provisioner:" followed by the name; \<open>UpdateCredential\<close> on an existing key,
  with input bytes whose base decode gives a discriminator with no registered factory,
  fails with the code \<open>ErrCredentialNotFound\<close> and the message "Unknow provisioner: "
  followed by the discriminator. This is the code of the NotFound kind; it differs from
  \<open>ErrCredentialDuplicate\<close>. In both cases \<open>Save\<close> is not called and the store is
  unchanged.
\<close>

theorem unknown_provisioner_is_not_found_code:
  "(\<not> fst (Exists C key w) \<longrightarrow> credentialers w provisioner = None \<longrightarrow>
      CreateCredential C provisioner key input codec w =
        (Some \<lparr>Code = ErrCredentialNotFound,
               Message = ''Unknown provisioner:'' @ provisioner\<rparr>,
         w\<lparr>trace := trace w @ [StoreGet (CredentialsID key) (CredentialBase C),
                                MapRead provisioner]\<rparr>))
   \<and> (\<forall>b. fst (Exists C key w) \<longrightarrow>
      unmarshal (ensureValidCredentialContentType C codec) buff (CredentialBase C) = Inr b \<longrightarrow>
      credentialers w (ProvisionerName C b) = None \<longrightarrow>
      UpdateCredential C key (Inr buff) codec w =
        (Some \<lparr>Code = ErrCredentialNotFound,
               Message = ''Unknow provisioner: '' @ ProvisionerName C b\<rparr>,
         w\<lparr>trace := trace w @ [StoreGet (CredentialsID key) (CredentialBase C),
                                ReadAllInput, CodecUnmarshal buff (CredentialBase C),
                                MapRead (ProvisionerName C b)]\<rparr>))
   \<and> ErrCredentialNotFound \<noteq> ErrCredentialDuplicate"
  by (simp add: CreateCredential_unknown UpdateCredential_unknown
      ErrCredentialNotFound_def ErrCredentialDuplicate_def)

theorem unknown_provisioner_is_not_found_code_witness:
  "\<not> fst (Exists mem_collab ''k2'' world1)
   \<and> credentialers world1 ''azure'' = None
   \<and> CreateCredential mem_collab ''azure'' ''k2'' (Inr ''azure,X'') None world1 =
       (Some \<lparr>Code = ErrCredentialNotFound, Message = ''Unknown provisioner:azure''\<rparr>,
        world1\<lparr>trace := [StoreGet (CredentialsID ''k2'') (Base []), MapRead ''azure'']\<rparr>)
   \<and> fst (Exists mem_collab ''k1'' world1)
   \<and> unmarshal csv ''azure,X'' (Base []) = Inr (Base ''azure'')
   \<and> UpdateCredential mem_collab ''k1'' (Inr ''azure,X'') None world1 =
       (Some \<lparr>Code = ErrCredentialNotFound, Message = ''Unknow provisioner: azure''\<rparr>,
        world1\<lparr>trace := [StoreGet (CredentialsID ''k1'') (Base []), ReadAllInput,
                         CodecUnmarshal ''azure,X'' (Base []), MapRead ''azure'']\<rparr>)"
proof -
  have absent: "\<not> fst (Exists mem_collab ''k2'' world1)"
    and ex: "fst (Exists mem_collab ''k1'' world1)"
    by (simp_all add: Exists_def mem_collab_def mem_get_def world1_def)
  show ?thesis
    using absent ex
      unknown_provisioner_is_not_found_code [where C = mem_collab and key = "''k2''"
        and w = world1 and provisioner = "''azure''" and input = "Inr ''azure,X''"
        and codec = None]
      unknown_provisioner_is_not_found_code [where C = mem_collab and key = "''k1''"
        and w = world1 and codec = None and buff = "''azure,X''"]
    by (simp add: ensureValidCredentialContentType_def mem_collab_def csv_def world1_def
        registered_def)
qed

text \<open>
  C6. The errors built as \<open>CredentialError{Message: ...}\<close> leave \<open>Code\<close> at zero, and
  zero is \<open>ErrCredentialDuplicate\<close>. An aws payload that lacks a field makes the codec
  fail, on create under a new key and on update of an existing key: the error returned
  carries the codec's message and the code of a Duplicate error, the code that
  \<open>CreateCredential\<close> returns on the existing key k1.
\<close>

theorem generic_error_carries_duplicate_code:
  "fst (CreateCredential mem_collab ''aws'' ''k2'' (Inr ''aws,A'') None world1)
     = Some \<lparr>Code = ErrCredentialDuplicate, Message = ''cannot decode''\<rparr>
   \<and> fst (UpdateCredential mem_collab ''k1'' (Inr ''aws,A'') None world1)
     = Some \<lparr>Code = ErrCredentialDuplicate, Message = ''cannot decode''\<rparr>
   \<and> fst (CreateCredential mem_collab ''aws'' ''k1'' (Inr ''aws,A,B'') None world1)
     = Some \<lparr>Code = ErrCredentialDuplicate, Message = ''Key exists: k1''\<rparr>"
  by (simp add: CreateCredential_def UpdateCredential_def Exists_def NewCredential_def
      ReadAll_def Unmarshal_def ensureValidCredentialContentType_def emit_def MessageOnly_def
      ErrCredentialDuplicate_def mem_collab_def mem_get_def csv_def world1_def registered_def)

text \<open>
  C7. \<open>RegisterCredentialer\<close> takes the mutex around its write of the map.
  \<open>NewCredential\<close> reads the map and never touches the mutex: the only thing it does
  to the outside is the read.
\<close>

theorem NewCredential_takes_no_lock:
  "trace (RegisterCredentialer ''aws'' (\<lambda>u. Aws [] [] []) world0)
     = [LockAcquire, MapWrite ''aws'', LockRelease]
   \<and> trace (snd (NewCredential ''aws'' world0)) = [MapRead ''aws'']
   \<and> trace (snd (NewCredential ''azure'' world0)) = [MapRead ''azure'']"
  by (simp add: RegisterCredentialer_def NewCredential_def emit_def Let_def world0_def
      registered_def)

text \<open>
  C9. No operation of the manager changes the registry: after \<open>NewCredential\<close>,
  \<open>Get\<close>, \<open>Exists\<close>, \<open>CreateCredential\<close>, \<open>UpdateCredential\<close>, \<open>Save\<close>,
  \<open>Delete\<close>, \<open>ListIds\<close>, \<open>Marshal\<close> and \<open>Unmarshal\<close>, whatever they return,
  \<open>credentialers\<close> is the map it was before.
\<close>

theorem manager_leaves_registry_unchanged:
  "credentialers (snd (NewCredential name w)) = credentialers w
   \<and> credentialers (snd (Get C key w)) = credentialers w
   \<and> credentialers (snd (Exists C key w)) = credentialers w
   \<and> credentialers (snd (CreateCredential C provisioner key input codec w)) = credentialers w
   \<and> credentialers (snd (UpdateCredential C key input codec w)) = credentialers w
   \<and> credentialers (snd (Save C key cred w)) = credentialers w
   \<and> credentialers (snd (Delete C key w)) = credentialers w
   \<and> credentialers (snd (ListIds C w)) = credentialers w
   \<and> credentialers (snd (Marshal C codec cred w)) = credentialers w
   \<and> credentialers (snd (Unmarshal C codec data cred w)) = credentialers w"
proof (intro conjI)
  show "credentialers (snd (NewCredential name w)) = credentialers w"
    by (rule credentialers_NewCredential)
  show "credentialers (snd (Get C key w)) = credentialers w"
    by (simp add: Get_def Let_def credentialers_NewCredential' credentialers_emit
        split: sum.split prod.split)
  show "credentialers (snd (Exists C key w)) = credentialers w"
    by (rule credentialers_Exists)
  show "credentialers (snd (CreateCredential C provisioner key input codec w)) = credentialers w"
    by (simp add: CreateCredential_def credentialers_Exists' credentialers_NewCredential'
        credentialers_ReadAll' credentialers_Unmarshal' credentialers_Save'
        split: sum.split prod.split option.split bool.split)
  show "credentialers (snd (UpdateCredential C key input codec w)) = credentialers w"
    by (simp add: UpdateCredential_def credentialers_Exists' credentialers_NewCredential'
        credentialers_ReadAll' credentialers_Unmarshal' credentialers_Save'
        split: sum.split prod.split option.split bool.split)
  show "credentialers (snd (Save C key cred w)) = credentialers w"
    by (rule credentialers_Save)
  show "credentialers (snd (Delete C key w)) = credentialers w"
    by (simp add: Delete_def credentialers_emit split: prod.split)
  show "credentialers (snd (ListIds C w)) = credentialers w"
    by (simp add: ListIds_def Let_def credentialers_emit split: sum.split)
  show "credentialers (snd (Marshal C codec cred w)) = credentialers w"
    by (simp add: Marshal_def credentialers_emit)
  show "credentialers (snd (Unmarshal C codec data cred w)) = credentialers w"
    by (rule credentialers_Unmarshal)
qed

text \<open>
  C10. \<open>UpdateCredential\<close> does not compare the discriminator of the input with the
  provisioner of the record stored at the key. When the key holds a record whose base
  shape names one provisioner, and the input bytes decode to a base shape that names
  another, registered one, and the second decode and \<open>Save\<close> do not fail, the call
  succeeds: \<open>Save\<close> has been called on the key with the shape of the other
  provisioner's factory, filled from the input, and the store is the one that
  \<open>Save\<close> left.
\<close>

theorem UpdateCredential_changes_provisioner:
  assumes "store_GetCredentials C (store w) (CredentialsID key) (CredentialBase C) = Inr b0"
    and "unmarshal (ensureValidCredentialContentType C codec) buff (CredentialBase C) = Inr b"
    and "ProvisionerName C b \<noteq> ProvisionerName C b0"
    and "credentialers w (ProvisionerName C b) = Some f"
    and "unmarshal (ensureValidCredentialContentType C codec) buff (f ()) = Inr d"
    and "store_Save C (store w) (CredentialsID key) d = (None, s)"
  shows "UpdateCredential C key (Inr buff) codec w =
           (None,
            w\<lparr>store := s,
              trace := trace w @ [StoreGet (CredentialsID key) (CredentialBase C),
                                   ReadAllInput, CodecUnmarshal buff (CredentialBase C),
                                   MapRead (ProvisionerName C b),
                                   CodecUnmarshal buff (f ()),
                                   StoreSave (CredentialsID key) d]\<rparr>)"
proof -
  from assms(1) have "fst (Exists C key w)"
    by (simp add: fst_Exists_iff)
  from UpdateCredential_saves [OF this assms(2) assms(4) assms(5) assms(6)]
  show ?thesis by simp
qed

theorem UpdateCredential_changes_provisioner_witness:
  "store_GetCredentials mem_collab (store world1) (CredentialsID ''k1'') (CredentialBase mem_collab)
     = Inr (Base ''aws'')
   \<and> unmarshal csv ''gcp,T'' (Base []) = Inr (Base ''gcp'')
   \<and> ''gcp'' \<noteq> ''aws''
   \<and> credentialers world1 ''gcp'' = Some (\<lambda>u. Gcp [] [])
   \<and> unmarshal csv ''gcp,T'' (Gcp [] []) = Inr (Gcp ''gcp'' ''T'')
   \<and> store_Save mem_collab (store world1) (CredentialsID ''k1'') (Gcp ''gcp'' ''T'')
     = (None, [(CredentialsID ''k1'', [''gcp'', ''T''])])
   \<and> UpdateCredential mem_collab ''k1'' (Inr ''gcp,T'') None world1 =
       (None,
        world1\<lparr>store := [(CredentialsID ''k1'', [''gcp'', ''T''])],
               trace := [StoreGet (CredentialsID ''k1'') (Base []), ReadAllInput,
                         CodecUnmarshal ''gcp,T'' (Base []), MapRead ''gcp'',
                         CodecUnmarshal ''gcp,T'' (Gcp [] []),
                         StoreSave (CredentialsID ''k1'') (Gcp ''gcp'' ''T'')]\<rparr>)
   \<and> fst (Get mem_collab ''k1'' (snd (UpdateCredential mem_collab ''k1'' (Inr ''gcp,T'') None world1)))
     = Inr (Gcp ''gcp'' ''T'')"
proof -
  have stored: "store_GetCredentials mem_collab (store world1) (CredentialsID ''k1'')
      (CredentialBase mem_collab) = Inr (Base ''aws'')"
    by (simp add: mem_collab_def mem_get_def world1_def)
  have base: "unmarshal (ensureValidCredentialContentType mem_collab None) ''gcp,T''
      (CredentialBase mem_collab) = Inr (Base ''gcp'')"
    by (simp add: ensureValidCredentialContentType_def mem_collab_def csv_def)
  have other: "ProvisionerName mem_collab (Base ''gcp'') \<noteq> ProvisionerName mem_collab (Base ''aws'')"
    by (simp add: mem_collab_def)
  have reg: "credentialers world1 (ProvisionerName mem_collab (Base ''gcp'')) = Some (\<lambda>u. Gcp [] [])"
    by (simp add: mem_collab_def world1_def registered_def)
  have detail: "unmarshal (ensureValidCredentialContentType mem_collab None) ''gcp,T''
      ((\<lambda>u. Gcp [] []) ()) = Inr (Gcp ''gcp'' ''T'')"
    by (simp add: ensureValidCredentialContentType_def mem_collab_def csv_def)
  have saved: "store_Save mem_collab (store world1) (CredentialsID ''k1'') (Gcp ''gcp'' ''T'')
      = (None, [(CredentialsID ''k1'', [''gcp'', ''T''])])"
    by (simp add: mem_collab_def mem_save_def world1_def)
  note run = UpdateCredential_changes_provisioner [OF stored base other reg detail saved]
  have again: "fst (Get mem_collab ''k1''
      (snd (UpdateCredential mem_collab ''k1'' (Inr ''gcp,T'') None world1))) = Inr (Gcp ''gcp'' ''T'')"
    unfolding run
    by (simp add: Get_def NewCredential_def Let_def emit_def mem_collab_def mem_get_def
        world1_def registered_def)
  show ?thesis
    using stored base reg detail saved run again
    by (simp add: ensureValidCredentialContentType_def mem_collab_def world1_def)
qed

end
